theory Spec2Isabelle
  imports Complex_Main "HOL-Library.Sublist"
begin

section \<open>Python values, exceptions and string formatting\<close>

text \<open>
  Every \<^verbatim>\<open>raise\<close> and every failing \<^verbatim>\<open>assert\<close> of the sources is a value
  of \<open>error\<close> carrying the message of the exception. \<open>IndexOutOfRange\<close> is the one error
  of the specification's taxonomy that the native scatter kernel reports.
  Python floats are modelled as reals: rounding, infinities and NaN are outside the model.
\<close>

datatype error =
    AssertionError string
  | ValueError string
  | TypeError string
  | ZeroDivisionError string
  | IndexError string
  | IndexOutOfRange

datatype pyval =
    PyNone
  | PyBool bool
  | PyInt int
  | PyFloat real
  | PyStr string
  | PyObj string

text \<open>\<^verbatim>\<open>isinstance(v, float)\<close>; \<^verbatim>\<open>bool\<close> is a subclass of \<^verbatim>\<open>int\<close>, not of \<^verbatim>\<open>float\<close>.\<close>

fun isinstance_float :: "pyval \<Rightarrow> bool" where
  "isinstance_float (PyFloat x) = True"
| "isinstance_float v = False"

text \<open>\<^verbatim>\<open>isinstance(v, (int, float))\<close> together with the numeric value of \<open>v\<close>.\<close>

fun int_or_float :: "pyval \<Rightarrow> real option" where
  "int_or_float (PyBool b) = Some (if b then 1 else 0)"
| "int_or_float (PyInt i) = Some (of_int i)"
| "int_or_float (PyFloat x) = Some x"
| "int_or_float v = None"

definition digit_char :: "nat \<Rightarrow> char" where
  "digit_char d = ''0123456789'' ! d"

text \<open>The decimal rendering of a natural number inside an f-string.\<close>

fun show_nat :: "nat \<Rightarrow> string" where
  "show_nat n =
     (if n < 10 then [digit_char n] else show_nat (n div 10) @ [digit_char (n mod 10)])"

declare show_nat.simps [simp del]

text \<open>\<^verbatim>\<open>key.startswith('_')\<close>\<close>

fun startswith_underscore :: "string \<Rightarrow> bool" where
  "startswith_underscore [] = False"
| "startswith_underscore (c # cs) = (c = CHR ''_'')"


section \<open>brainpy/math/__init__.py: the process-wide step and backend name\<close>

text \<open>
  The module's global namespace is a map from names to values. The module starts with
  \<^verbatim>\<open>__dt = 0.1\<close> and \<^verbatim>\<open>BACKEND_NAME = 'numpy'\<close>. The functions below are the function
  objects defined in the module; what a backend module may rebind their names to is not
  modelled.
\<close>

type_synonym globals = "string \<rightharpoonup> pyval"

definition initial_globals :: globals where
  "initial_globals = [''__dt'' \<mapsto> PyFloat (1 / 10), ''BACKEND_NAME'' \<mapsto> PyStr ''numpy'']"

definition set_dt :: "pyval \<Rightarrow> globals \<Rightarrow> error + globals" where
  "set_dt dt g =
     (if \<not> isinstance_float dt then Inl (AssertionError [])
      else Inr (g(''__dt'' \<mapsto> dt)))"

text \<open>Reading a global that is not bound would be a \<^verbatim>\<open>NameError\<close>: the value \<open>None\<close>.\<close>

definition get_dt :: "globals \<Rightarrow> pyval option" where
  "get_dt g = g ''__dt''"

definition get_backend_name :: "globals \<Rightarrow> pyval option" where
  "get_backend_name g = g ''BACKEND_NAME''"

text \<open>
  The three backend modules are not part of the sources: their namespaces
  (\<^verbatim>\<open>module.__dict__.items()\<close>, in iteration order) are a parameter.
\<close>

record backend_modules =
  numpy :: "(string \<times> pyval) list"
  numba :: "(string \<times> pyval) list"
  jax :: "(string \<times> pyval) list"

text \<open>
  The loop that replaces the operations: a key that starts with an underscore is skipped
  unless it is one of the four listed dunder names.
\<close>

fun replace_operations :: "(string \<times> pyval) list \<Rightarrow> globals \<Rightarrow> globals" where
  "replace_operations [] global_vars = global_vars"
| "replace_operations ((key, val) # items) global_vars =
     (if startswith_underscore key \<and>
         key \<notin> set [''__name__'', ''__doc__'', ''__file__'', ''__path__'']
      then replace_operations items global_vars
      else replace_operations items (global_vars(key \<mapsto> val)))"

definition unknown_backend_msg :: "string \<Rightarrow> string" where
  \<open>unknown_backend_msg name =
     ''Unknown backend "'' @ name @ ''", now we only support: numpy, numba, jax.''\<close>

text \<open>
  Lines 103 to 114 of \<^verbatim>\<open>use_backend\<close>: the backend module that is imported, or the
  \<^verbatim>\<open>ValueError\<close> for an unknown name.
\<close>

definition import_backend :: "backend_modules \<Rightarrow> string \<Rightarrow> error + (string \<times> pyval) list" where
  "import_backend mods name =
     (if name = ''numpy'' then Inr (numpy mods)
      else if name = ''numba'' then Inr (numba mods)
      else if name = ''jax'' then Inr (jax mods)
      else Inl (ValueError (unknown_backend_msg name)))"

definition use_backend :: "backend_modules \<Rightarrow> string \<Rightarrow> globals \<Rightarrow> error + globals" where
  "use_backend mods name global_vars =
     (case import_backend mods name of
        Inl e \<Rightarrow> Inl e
      | Inr module_items \<Rightarrow>
          Inr (replace_operations module_items (global_vars(''BACKEND_NAME'' \<mapsto> PyStr name))))"

text \<open>
  The calls a client can make on the module, and the namespace after a call; a call that
  raises leaves the namespace as it was.
\<close>

datatype math_call =
    SetDt pyval
  | GetDt
  | GetBackendName
  | UseBackend string

fun exec_call :: "backend_modules \<Rightarrow> math_call \<Rightarrow> globals \<Rightarrow> globals" where
  "exec_call mods (SetDt v) g = (case set_dt v g of Inl e \<Rightarrow> g | Inr g' \<Rightarrow> g')"
| "exec_call mods GetDt g = g"
| "exec_call mods GetBackendName g = g"
| "exec_call mods (UseBackend name) g = (case use_backend mods name g of Inl e \<Rightarrow> g | Inr g' \<Rightarrow> g')"

fun is_set_dt :: "math_call \<Rightarrow> bool" where
  "is_set_dt (SetDt v) = True"
| "is_set_dt c = False"

section \<open>extensions/brainpylib/atomic_sum.py: the scatter-sum wrapper\<close>

datatype dtype =
    bool8 | int8 | int16 | int32 | int64
  | uint8 | uint16 | uint32 | uint64
  | float16 | float32 | float64

text \<open>\<^verbatim>\<open>str(dtype)\<close>, the rendering of a dtype inside an f-string.\<close>

fun dtype_name :: "dtype \<Rightarrow> string" where
  "dtype_name bool8 = ''bool''"
| "dtype_name int8 = ''int8''"
| "dtype_name int16 = ''int16''"
| "dtype_name int32 = ''int32''"
| "dtype_name int64 = ''int64''"
| "dtype_name uint8 = ''uint8''"
| "dtype_name uint16 = ''uint16''"
| "dtype_name uint32 = ''uint32''"
| "dtype_name uint64 = ''uint64''"
| "dtype_name float16 = ''float16''"
| "dtype_name float32 = ''float32''"
| "dtype_name float64 = ''float64''"

text \<open>\<^verbatim>\<open>repr(dtype)\<close>, used when a tuple of dtypes is formatted.\<close>

definition dtype_repr :: "dtype \<Rightarrow> string" where
  \<open>dtype_repr d = ''dtype('' @ [CHR 0x27] @ dtype_name d @ [CHR 0x27] @ '')''\<close>

text \<open>
  A one-dimensional array with its element type. The \<open>values\<close> argument is either a
  scalar (a 0-d array, \<^verbatim>\<open>np.ndim(values) == 0\<close>) or a one-dimensional array.
\<close>

record 'a array =
  dtype :: dtype
  items :: "'a list"

datatype value_arg = Scalar dtype real | Vector "real array"

text \<open>\<^verbatim>\<open>jnp.size(values)\<close>\<close>

fun jnp_size :: "value_arg \<Rightarrow> nat" where
  "jnp_size (Scalar d v) = 1"
| "jnp_size (Vector a) = length (items a)"

text \<open>\<^verbatim>\<open>if np.ndim(values) == 0: values = jnp.asarray([values])\<close>\<close>

fun as_vector :: "value_arg \<Rightarrow> real array" where
  "as_vector (Scalar d v) = \<lparr>dtype = d, items = [v]\<rparr>"
| "as_vector (Vector a) = a"

text \<open>
  Modelled from the spec: the native kernels behind the primitive
  \<^verbatim>\<open>coo_atomic_sum_p1\<close> (the C++/CUDA custom calls \<^verbatim>\<open>_coo_atomic_sum_homo\<close> and
  \<^verbatim>\<open>_coo_atomic_sum_heter\<close>) are missing from the sources. Section 4.5 of the
  specification gives the contract \<^verbatim>\<open>scatter_sum(values, dest_ids, dest_count)\<close>:
  \<^verbatim>\<open>output[d]\<close> is the sum of \<^verbatim>\<open>values[k]\<close> over every \<open>k\<close> with \<^verbatim>\<open>dest_ids[k] == d\<close>,
  unreferenced destinations get 0, and the call fails with \<open>IndexOutOfRange\<close> if any
  entry of \<^verbatim>\<open>dest_ids\<close> is at least \<^verbatim>\<open>dest_count\<close>. Here \<open>vals\<close> has one entry per edge.
\<close>

definition scatter_sum :: "real list \<Rightarrow> nat list \<Rightarrow> nat \<Rightarrow> error + real list" where
  "scatter_sum vals dest_ids dest_count =
     (if list_ex (\<lambda>d. dest_count \<le> d) dest_ids then Inl IndexOutOfRange
      else Inr (map (\<lambda>d. sum_list (map (\<lambda>k. vals ! k)
                                      (filter (\<lambda>k. dest_ids ! k = d) [0..<length dest_ids])))
                    [0..<dest_count]))"

text \<open>
  Modelled from the spec: the homogeneous kernel receives \<^verbatim>\<open>(values, post_ids, conn_size,
  post_num)\<close> and broadcasts the single value to all \<^verbatim>\<open>conn_size\<close> edges.
\<close>

definition coo_atomic_sum_homo :: "real list \<Rightarrow> nat list \<Rightarrow> nat \<Rightarrow> nat \<Rightarrow> error + real list" where
  "coo_atomic_sum_homo vals post_ids conn_size post_num =
     scatter_sum (replicate conn_size (vals ! 0)) post_ids post_num"

text \<open>
  Modelled from the spec: the heterogeneous kernel receives \<^verbatim>\<open>(values, pre_ids, post_ids,
  conn_size, post_num)\<close>. The value of edge \<open>k\<close> is \<^verbatim>\<open>values[pre_ids[k]]\<close>: the wrapper
  requires \<^verbatim>\<open>values.size > pre_ids.max()\<close>, so \<open>values\<close> is indexed by the entries of
  \<^verbatim>\<open>pre_ids\<close>.
\<close>

definition coo_atomic_sum_heter ::
  "real list \<Rightarrow> nat list \<Rightarrow> nat list \<Rightarrow> nat \<Rightarrow> nat \<Rightarrow> error + real list" where
  "coo_atomic_sum_heter vals pre_ids post_ids conn_size post_num =
     scatter_sum (map (\<lambda>k. vals ! (pre_ids ! k)) [0..<conn_size]) post_ids post_num"

text \<open>
  The platform the primitive is lowered for, and whether the compiled \<^verbatim>\<open>gpu_ops\<close>
  module could be imported.
\<close>

record xla_env =
  platform :: string
  gpu_ops :: bool

definition wrap_result :: "dtype \<Rightarrow> error + real list \<Rightarrow> error + real array" where
  "wrap_result d r = (case r of Inl e \<Rightarrow> Inl e | Inr xs \<Rightarrow> Inr \<lparr>dtype = d, items = xs\<rparr>)"

definition unsupported_platform_msg :: string where
  \<open>unsupported_platform_msg =
     ''Unsupported platform; this must be either '' @ [CHR 0x27] @ ''cpu'' @ [CHR 0x27]
       @ '' or '' @ [CHR 0x27] @ ''gpu'' @ [CHR 0x27]\<close>

text \<open>
  \<^verbatim>\<open>_atomic_sum_translation\<close>: the dispatch on the element types and on
  \<^verbatim>\<open>values_dim[0] == 1\<close>; the result has the element type of \<open>values\<close> and shape
  \<^verbatim>\<open>(post_num,)\<close>.
\<close>

definition atomic_sum_translation ::
  "xla_env \<Rightarrow> real array \<Rightarrow> nat array \<Rightarrow> nat array \<Rightarrow> nat \<Rightarrow> error + real array" where
  "atomic_sum_translation env vals pre_ids post_ids post_num =
     (let conn_size = length (items post_ids) in
      if dtype post_ids \<notin> {uint32, uint64} then Inl (AssertionError [])
      else if dtype vals \<notin> {float32, float64} then Inl (AssertionError [])
      else if platform env = ''cpu'' then
        (if length (items vals) \<noteq> 1
         then wrap_result (dtype vals)
                (coo_atomic_sum_heter (items vals) (items pre_ids) (items post_ids) conn_size post_num)
         else wrap_result (dtype vals)
                (coo_atomic_sum_homo (items vals) (items post_ids) conn_size post_num))
      else if platform env = ''gpu'' then
        (if \<not> gpu_ops env then Inl (ValueError ''Cannot find compiled gpu wheels.'')
         else if length (items vals) \<noteq> 1
         then wrap_result (dtype vals)
                (coo_atomic_sum_heter (items vals) (items pre_ids) (items post_ids) conn_size post_num)
         else wrap_result (dtype vals)
                (coo_atomic_sum_homo (items vals) (items post_ids) conn_size post_num))
      else Inl (ValueError unsupported_platform_msg))"

definition need_pre_ids_msg :: string where
  \<open>need_pre_ids_msg = ''Must provide "pre_ids" when "values" is not a scalar.''\<close>

definition length_mismatch_msg :: "nat \<Rightarrow> nat \<Rightarrow> string" where
  \<open>length_mismatch_msg n m =
     ''The length of "pre_ids" and "post_ids" must be the same, while we got ''
       @ show_nat n @ '' != '' @ show_nat m\<close>

definition dtype_mismatch_msg :: "dtype \<Rightarrow> dtype \<Rightarrow> string" where
  \<open>dtype_mismatch_msg d1 d2 =
     ''The dtype of pre_ids must be equal to that of post_ids, while we got (''
       @ dtype_repr d1 @ '', '' @ dtype_repr d2 @ '')''\<close>

definition index_dtype_msg :: "dtype \<Rightarrow> string" where
  \<open>index_dtype_msg d =
     ''The dtype of post_ids must be uint32 or uint64, while we got '' @ dtype_name d\<close>

definition values_dtype_msg :: "dtype \<Rightarrow> string" where
  \<open>values_dtype_msg d =
     ''The dtype of "values" must be float32 or float64, while we got '' @ dtype_name d @ ''.''\<close>

definition values_size_msg :: "nat \<Rightarrow> nat \<Rightarrow> string" where
  \<open>values_size_msg n m =
     ''The size of "values" must be 1 (a scalar) or longer than pre_size (a vector), while we got ''
       @ show_nat n @ '' != 1 <= '' @ show_nat m\<close>

definition empty_max_msg :: string where
  "empty_max_msg = ''zero-size array to reduction operation maximum which has no identity''"

text \<open>
  \<^verbatim>\<open>coo_atomic_sum(values, post_ids, post_num, pre_ids=None)\<close>. The maximum of an empty
  array raises a \<^verbatim>\<open>ValueError\<close>.
\<close>

definition coo_atomic_sum ::
  "xla_env \<Rightarrow> value_arg \<Rightarrow> nat array \<Rightarrow> nat \<Rightarrow> nat array option \<Rightarrow> error + real array" where
  "coo_atomic_sum env vals post_ids post_num pre_ids_arg =
     (case (if jnp_size vals \<noteq> 1
            then (case pre_ids_arg of
                    None \<Rightarrow> Inl (AssertionError need_pre_ids_msg)
                  | Some p \<Rightarrow> Inr p)
            else Inr post_ids) of
        Inl e \<Rightarrow> Inl e
      | Inr pre_ids \<Rightarrow>
          if length (items pre_ids) \<noteq> length (items post_ids) then
            Inl (ValueError (length_mismatch_msg (length (items pre_ids)) (length (items post_ids))))
          else if dtype pre_ids \<noteq> dtype post_ids then
            Inl (ValueError (dtype_mismatch_msg (dtype pre_ids) (dtype post_ids)))
          else if dtype post_ids \<notin> {uint32, uint64} then
            Inl (ValueError (index_dtype_msg (dtype post_ids)))
          else
            (let varr = as_vector vals in
             if dtype varr \<notin> {float32, float64} then
               Inl (ValueError (values_dtype_msg (dtype varr)))
             else if length (items varr) \<noteq> 1 \<and> items pre_ids = [] then
               Inl (ValueError empty_max_msg)
             else if length (items varr) \<noteq> 1 \<and> length (items varr) \<le> Max (set (items pre_ids)) then
               Inl (ValueError (values_size_msg (length (items varr)) (Max (set (items pre_ids)))))
             else atomic_sum_translation env varr pre_ids post_ids post_num))"

section \<open>npbrain/core_system/synapse_connection.py\<close>

subsection \<open>The aggregation of synaptic values onto postsynaptic neurons\<close>






subsection \<open>Neuron groups, connections and the synaptic ensemble\<close>

record NeuGroup =
  num :: nat
  geometry :: "nat list"

text \<open>
  The \<^verbatim>\<open>conn\<close> argument: a \<^verbatim>\<open>Connector\<close> (class missing from the sources, taken as the
  function from the two geometries to the index lists \<^verbatim>\<open>'i'\<close> and \<^verbatim>\<open>'j'\<close> it returns),
  an array with its shape and entries in row-major order, a dictionary of index lists,
  or any other object.
\<close>

datatype connection =
    Connector "nat list \<Rightarrow> nat list \<Rightarrow> int list \<times> int list"
  | NdArray "nat list" "int list"
  | Dict "string \<rightharpoonup> int list"
  | OtherConn

text \<open>
  Modelled from the spec: the functions \<^verbatim>\<open>pre2syn\<close> and \<^verbatim>\<open>post2syn\<close> of the
  connectivity module are missing from the sources. Section 3 of the specification:
  \<^verbatim>\<open>pre2syn[i]\<close> is the ordered sequence of synapse indices whose presynaptic endpoint is
  neuron \<open>i\<close>, \<^verbatim>\<open>post2syn[j]\<close> the one of those whose postsynaptic endpoint is neuron \<open>j\<close>.
\<close>

definition connectivity_pre2syn :: "int list \<Rightarrow> int list \<Rightarrow> nat \<Rightarrow> nat list list" where
  "connectivity_pre2syn pre_idx post_idx pre_num =
     map (\<lambda>i. filter (\<lambda>k. pre_idx ! k = int i) [0..<length pre_idx]) [0..<pre_num]"

definition connectivity_post2syn :: "int list \<Rightarrow> int list \<Rightarrow> nat \<Rightarrow> nat list list" where
  "connectivity_post2syn pre_idx post_idx post_num =
     map (\<lambda>j. filter (\<lambda>k. post_idx ! k = int j) [0..<length post_idx]) [0..<post_num]"

text \<open>
  The attributes that \<^verbatim>\<open>SynConn.__init__\<close> sets. The connection attributes exist only
  when both groups were given. The state containers \<^verbatim>\<open>pre\<close>, \<^verbatim>\<open>post\<close> and \<^verbatim>\<open>ST\<close> are
  not represented: their classes are missing from the sources.
\<close>

record SynConn =
  name :: string
  pre_group :: "NeuGroup option"
  post_group :: "NeuGroup option"
  pre2syn :: "nat list list option"
  post2syn :: "nat list list option"
  pre_ids :: "int list option"
  post_ids :: "int list option"
  num :: int
  delay_len :: int

text \<open>Lines 45 to 50: the default name and the global counter \<^verbatim>\<open>_SYN_NO\<close>.\<close>

definition syn_name :: "string option \<Rightarrow> nat \<Rightarrow> string \<times> nat" where
  "syn_name name_arg SYN_NO =
     (case name_arg of
        None \<Rightarrow> (''SynConn'' @ show_nat SYN_NO, SYN_NO + 1)
      | Some n \<Rightarrow> (n, SYN_NO))"

definition not_2d_msg :: "nat \<Rightarrow> string" where
  \<open>not_2d_msg ndim = ''"conn" must be a 2D array, not '' @ show_nat ndim @ ''D.''\<close>

definition conn_shape_msg :: "nat \<Rightarrow> nat \<Rightarrow> string" where
  \<open>conn_shape_msg pre_num post_num =
     ''The shape of "conn" must be ('' @ show_nat pre_num @ '', '' @ show_nat post_num @ '')''\<close>

definition int_not_iterable_msg :: string where
  "int_not_iterable_msg = [CHR 0x27] @ ''int'' @ [CHR 0x27] @ '' object is not iterable''"

text \<open>
  Lines 65 to 85: the edges \<^verbatim>\<open>(pre_idx, post_idx)\<close> of a connection. In the array branch,
  once both assertions hold, \<^verbatim>\<open>enumerate(pre_group.num)\<close> is applied to an integer and
  raises \<^verbatim>\<open>TypeError\<close> before the loop body runs.
\<close>

fun connect_edges :: "NeuGroup \<Rightarrow> NeuGroup \<Rightarrow> connection \<Rightarrow> error + (int list \<times> int list)" where
  "connect_edges pre post (Connector f) = Inr (f (geometry pre) (geometry post))"
| "connect_edges pre post (NdArray conn_shape entries) =
     (if length conn_shape \<noteq> 2 then Inl (AssertionError (not_2d_msg (length conn_shape)))
      else if \<not> (conn_shape ! 0 = NeuGroup.num pre \<and> conn_shape ! 1 = NeuGroup.num post) then
        Inl (AssertionError (conn_shape_msg (NeuGroup.num pre) (NeuGroup.num post)))
      else Inl (TypeError int_not_iterable_msg))"
| \<open>connect_edges pre post (Dict d) =
     (case d ''i'' of
        None \<Rightarrow> Inl (AssertionError ''"conn" must provide "i" item.'')
      | Some pre_idx \<Rightarrow>
          (case d ''j'' of
             None \<Rightarrow> Inl (AssertionError ''"conn" must provide "j" item.'')
           | Some post_idx \<Rightarrow> Inr (pre_idx, post_idx)))\<close>
| \<open>connect_edges pre post OtherConn =
     Inl (AssertionError ''"conn" only support "dict" or a 2D "array".'')\<close>

text \<open>
  Lines 56 to 96: the synapse number together with the connection attributes, when both
  groups are given, and the \<^verbatim>\<open>num\<close> argument otherwise.
\<close>

definition edges_or_num ::
  "NeuGroup option \<Rightarrow> NeuGroup option \<Rightarrow> connection option \<Rightarrow> int option
     \<Rightarrow> error + (int \<times> (NeuGroup \<times> NeuGroup \<times> int list \<times> int list) option)" where
  \<open>edges_or_num pre_grp post_grp conn num_arg =
     (case (pre_grp, post_grp) of
        (Some pre, Some post) \<Rightarrow>
          (case conn of
             None \<Rightarrow> Inl (AssertionError ''"conn" must be provided.'')
           | Some c \<Rightarrow>
               (case connect_edges pre post c of
                  Inl e \<Rightarrow> Inl e
                | Inr (pre_idx, post_idx) \<Rightarrow>
                    Inr (int (length pre_idx), Some (pre, post, pre_idx, post_idx))))
      | _ \<Rightarrow>
          (case num_arg of
             None \<Rightarrow> Inl (AssertionError ''"num" must be provided when "pre" and "post" are none.'')
           | Some n \<Rightarrow> Inr (n, None)))\<close>

definition other_delay_msg :: string where
  "other_delay_msg =
     ''NumpyBrain currently doesn'' @ [CHR 0x27] @ ''t support other kinds of delay.''"

text \<open>
  Lines 101 to 108: the delay in steps. \<open>dt\<close> is the value of \<^verbatim>\<open>profile.get_dt()\<close>
  (the profile module is missing from the sources); dividing by a zero \<open>dt\<close> raises.
\<close>

definition delay_length :: "real \<Rightarrow> pyval \<Rightarrow> error + int" where
  "delay_length dt delay =
     (if delay = PyNone then Inr 0
      else case int_or_float delay of
             Some d \<Rightarrow>
               if dt = 0 then Inl (ZeroDivisionError ''float division by zero'')
               else Inr \<lceil>d / dt\<rceil>
           | None \<Rightarrow> Inl (ValueError other_delay_msg))"

definition uint64_msg :: string where
  \<open>uint64_msg = ''Total synapse number "num" must be a valid number in "uint64".''\<close>

text \<open>
  \<^verbatim>\<open>SynConn.__init__\<close>, with the counter \<^verbatim>\<open>_SYN_NO\<close> before and after the call. The
  arguments \<^verbatim>\<open>create_func\<close>, \<^verbatim>\<open>monitors\<close>, \<^verbatim>\<open>vars_init\<close> and \<^verbatim>\<open>pars_update\<close> are only
  handed to the base class. Modelled from the spec: \<^verbatim>\<open>BaseEnsemble.__init__\<close> is missing
  from the sources; by section 3 of the specification it stores the name and the element
  count \<open>num\<close> it is given.
\<close>

definition SynConn_init ::
  "nat \<Rightarrow> real \<Rightarrow> pyval \<Rightarrow> NeuGroup option \<Rightarrow> NeuGroup option \<Rightarrow> connection option
     \<Rightarrow> int option \<Rightarrow> string option \<Rightarrow> (error + SynConn) \<times> nat" where
  "SynConn_init SYN_NO dt delay pre_grp post_grp conn num_arg name_arg =
     (let (nm, SYN_NO') = syn_name name_arg SYN_NO in
      (case edges_or_num pre_grp post_grp conn num_arg of
         Inl e \<Rightarrow> Inl e
       | Inr (n, edges) \<Rightarrow>
           if \<not> (0 < n \<and> n < 2 ^ 64) then Inl (AssertionError uint64_msg)
           else
             (case delay_length dt delay of
                Inl e \<Rightarrow> Inl e
              | Inr dl \<Rightarrow>
                  Inr \<lparr>name = nm,
                       pre_group = pre_grp,
                       post_group = post_grp,
                       pre2syn = map_option (\<lambda>(pre, post, pre_idx, post_idx).
                                   connectivity_pre2syn pre_idx post_idx (NeuGroup.num pre)) edges,
                       post2syn = map_option (\<lambda>(pre, post, pre_idx, post_idx).
                                   connectivity_post2syn pre_idx post_idx (NeuGroup.num post)) edges,
                       pre_ids = map_option (\<lambda>(pre, post, pre_idx, post_idx). pre_idx) edges,
                       post_ids = map_option (\<lambda>(pre, post, pre_idx, post_idx). post_idx) edges,
                       num = n,
                       delay_len = dl\<rparr>),
       SYN_NO'))"

subsection \<open>The operations of a constructed ensemble\<close>

text \<open>
  \<^verbatim>\<open>_merge_steps\<close> and the property \<^verbatim>\<open>_keywords\<close>. The results of the base class
  (\<^verbatim>\<open>super()._merge_steps()\<close> and \<^verbatim>\<open>super()._keywords\<close>) are parameters. Each
  operation returns its result together with the ensemble, which it leaves as it is.
\<close>

definition SynConn_merge_steps :: "string list \<Rightarrow> SynConn \<Rightarrow> string list \<times> SynConn" where
  "SynConn_merge_steps base_codes self =
     (base_codes @ [name self @ ''.ST._update_delay_indices()''], self)"

definition SynConn_keywords :: "string list \<Rightarrow> SynConn \<Rightarrow> string list \<times> SynConn" where
  "SynConn_keywords base_keywords self = (base_keywords @ [''delay_len''], self)"

datatype syn_op = MergeSteps "string list" | Keywords "string list"

fun apply_op :: "syn_op \<Rightarrow> SynConn \<Rightarrow> SynConn" where
  "apply_op (MergeSteps base_codes) self = snd (SynConn_merge_steps base_codes self)"
| "apply_op (Keywords base_keywords) self = snd (SynConn_keywords base_keywords self)"


section \<open>Concrete inputs used by the examples\<close>

definition example_modules :: backend_modules where
  "example_modules =
     \<lparr>numpy = [(''exp'', PyObj ''numpy.exp''), (''__name__'', PyStr ''brainpy.math.numpy'')],
      numba = [(''exp'', PyObj ''numba.exp''), (''_hidden'', PyInt 1)],
      jax = [(''__dt'', PyFloat 5), (''exp'', PyObj ''jax.exp'')]\<rparr>"

definition example_pre :: NeuGroup where
  "example_pre = \<lparr>NeuGroup.num = 3, geometry = [3]\<rparr>"

definition example_post :: NeuGroup where
  "example_post = \<lparr>NeuGroup.num = 4, geometry = [4]\<rparr>"

definition example_syn :: SynConn where
  "example_syn =
     \<lparr>name = ''SynConn0'',
      pre_group = Some example_pre,
      post_group = Some example_post,
      pre2syn = Some [[0], [1, 2], []],
      post2syn = Some [[], [0, 2], [], [1]],
      pre_ids = Some [0, 1, 1],
      post_ids = Some [1, 3, 1],
      num = 3,
      delay_len = 0\<rparr>"


definition cpu_env :: xla_env where
  "cpu_env = \<lparr>platform = ''cpu'', gpu_ops = False\<rparr>"


section \<open>The integration step and the backend name\<close>

lemma replace_operations_dt:
  "replace_operations kvs g ''__dt'' = g ''__dt''"
  by (induction kvs arbitrary: g) auto

lemma replace_operations_other:
  "key \<notin> fst ` set kvs \<Longrightarrow> replace_operations kvs g key = g key"
  by (induction kvs arbitrary: g) auto

lemma exec_call_dt:
  "\<not> is_set_dt c \<Longrightarrow> exec_call mods c g ''__dt'' = g ''__dt''"
  by (cases c) (auto simp: use_backend_def replace_operations_dt split: sum.splits)

lemma fold_exec_call_dt:
  "list_all (\<lambda>c. \<not> is_set_dt c) calls
     \<Longrightarrow> fold (exec_call mods) calls g ''__dt'' = g ''__dt''"
  by (induction calls arbitrary: g) (auto simp: exec_call_dt)

text \<open>
  Claim C8. The step \<open>dt\<close> is settable and gettable: \<^verbatim>\<open>set_dt(x)\<close> succeeds for every
  float \<open>x\<close>; after it, \<^verbatim>\<open>get_dt()\<close> returns \<open>x\<close> after any sequence of calls on the module
  that contains no further \<^verbatim>\<open>set_dt\<close>; before any \<^verbatim>\<open>set_dt\<close> call \<^verbatim>\<open>get_dt()\<close> returns the
  default 0.1; and \<^verbatim>\<open>set_dt\<close> rejects every argument that is not a float.
\<close>

theorem dt_settable_gettable:
  "(list_all (\<lambda>c. \<not> is_set_dt c) calls \<longrightarrow>
      set_dt (PyFloat x) g = Inr (g(''__dt'' \<mapsto> PyFloat x)) \<and>
      get_dt (fold (exec_call mods) calls (g(''__dt'' \<mapsto> PyFloat x))) = Some (PyFloat x) \<and>
      get_dt (fold (exec_call mods) calls initial_globals) = Some (PyFloat (1 / 10))) \<and>
   (\<not> isinstance_float v \<longrightarrow> (\<exists>m. set_dt v g = Inl (AssertionError m)))"
  by (simp add: set_dt_def get_dt_def fold_exec_call_dt initial_globals_def)

text \<open>
  An instance of C8: the step is set to 0.05, then read after two backend switches (one of
  them rejected); the jax module of the example even exports a name \<^verbatim>\<open>__dt\<close>, which the
  replacement loop skips. The integer 1 is rejected by \<^verbatim>\<open>set_dt\<close>.
\<close>

theorem dt_settable_gettable_witness:
  "list_all (\<lambda>c. \<not> is_set_dt c) [GetDt, UseBackend ''jax'', UseBackend ''torch'', GetBackendName] \<and>
   set_dt (PyFloat (1 / 20)) initial_globals = Inr (initial_globals(''__dt'' \<mapsto> PyFloat (1 / 20))) \<and>
   get_dt (fold (exec_call example_modules)
             [GetDt, UseBackend ''jax'', UseBackend ''torch'', GetBackendName]
             (initial_globals(''__dt'' \<mapsto> PyFloat (1 / 20)))) = Some (PyFloat (1 / 20)) \<and>
   get_dt (fold (exec_call example_modules)
             [GetDt, UseBackend ''jax'', UseBackend ''torch'', GetBackendName]
             initial_globals) = Some (PyFloat (1 / 10)) \<and>
   \<not> isinstance_float (PyInt 1) \<and>
   (\<exists>m. set_dt (PyInt 1) initial_globals = Inl (AssertionError m))"
  using dt_settable_gettable [of "[GetDt, UseBackend ''jax'', UseBackend ''torch'', GetBackendName]"
      "1 / 20" initial_globals example_modules "PyInt 1"]
  by simp

lemma unknown_backend_msg_name: "sublist bname (unknown_backend_msg bname)"
  unfolding unknown_backend_msg_def by (rule sublist_appendI)

lemma unknown_backend_msg_supported: "sublist ''numpy, numba, jax'' (unknown_backend_msg bname)"
proof -
  have split: \<open>unknown_backend_msg bname =
          (''Unknown backend "'' @ bname @ ''", now we only support: '') @ ''numpy, numba, jax'' @ ''.''\<close>
    by (simp add: unknown_backend_msg_def)
  show ?thesis
    unfolding split by (rule sublist_appendI)
qed

text \<open>
  Claim C9. For a name outside numpy, numba and jax, \<^verbatim>\<open>use_backend\<close> raises the
  \<^verbatim>\<open>ValueError\<close> whose message includes the name and the supported backends, and the
  backend name is what it was. For a name in that set the call succeeds and afterwards
  \<^verbatim>\<open>get_backend_name()\<close> returns the name; the backend modules are not part of the
  sources, and this holds when the imported module exports no attribute called
  \<^verbatim>\<open>BACKEND_NAME\<close> (the replacement loop would copy it over the name just stored).
\<close>

theorem use_backend_names:
  "(bname \<notin> {''numpy'', ''numba'', ''jax''} \<longrightarrow>
      use_backend mods bname g = Inl (ValueError (unknown_backend_msg bname)) \<and>
      sublist bname (unknown_backend_msg bname) \<and>
      sublist ''numpy, numba, jax'' (unknown_backend_msg bname) \<and>
      get_backend_name (exec_call mods (UseBackend bname) g) = get_backend_name g) \<and>
   (bname \<in> {''numpy'', ''numba'', ''jax''} \<longrightarrow>
      (\<exists>kvs. import_backend mods bname = Inr kvs \<and>
         (''BACKEND_NAME'' \<notin> fst ` set kvs \<longrightarrow>
            (\<exists>g'. use_backend mods bname g = Inr g' \<and>
                  exec_call mods (UseBackend bname) g = g' \<and>
                  get_backend_name g' = Some (PyStr bname)))))"
proof (intro conjI impI)
  assume unknown: "bname \<notin> {''numpy'', ''numba'', ''jax''}"
  then show "use_backend mods bname g = Inl (ValueError (unknown_backend_msg bname))"
    by (simp add: use_backend_def import_backend_def)
  then show "get_backend_name (exec_call mods (UseBackend bname) g) = get_backend_name g"
    by simp
next
  show "sublist bname (unknown_backend_msg bname)"
    by (rule unknown_backend_msg_name)
  show "sublist ''numpy, numba, jax'' (unknown_backend_msg bname)"
    by (rule unknown_backend_msg_supported)
next
  assume known: "bname \<in> {''numpy'', ''numba'', ''jax''}"
  then obtain kvs where kvs: "import_backend mods bname = Inr kvs"
    by (auto simp: import_backend_def)
  have "get_backend_name (replace_operations kvs (g(''BACKEND_NAME'' \<mapsto> PyStr bname)))
          = Some (PyStr bname)"
    if "''BACKEND_NAME'' \<notin> fst ` set kvs"
    using that by (simp add: get_backend_name_def replace_operations_other)
  with kvs show "\<exists>kvs. import_backend mods bname = Inr kvs \<and>
         (''BACKEND_NAME'' \<notin> fst ` set kvs \<longrightarrow>
            (\<exists>g'. use_backend mods bname g = Inr g' \<and>
                  exec_call mods (UseBackend bname) g = g' \<and>
                  get_backend_name g' = Some (PyStr bname)))"
    by (auto simp: use_backend_def)
qed

text \<open>
  Instances of C9: the unknown name \<^verbatim>\<open>torch\<close> is rejected and the backend stays
  \<^verbatim>\<open>numpy\<close>; after \<^verbatim>\<open>use_backend('jax')\<close> the backend name is \<^verbatim>\<open>jax\<close>.
\<close>

theorem use_backend_names_witness:
  "''torch'' \<notin> {''numpy'', ''numba'', ''jax''} \<and>
   use_backend example_modules ''torch'' initial_globals
     = Inl (ValueError (unknown_backend_msg ''torch'')) \<and>
   sublist ''torch'' (unknown_backend_msg ''torch'') \<and>
   get_backend_name (exec_call example_modules (UseBackend ''torch'') initial_globals)
     = Some (PyStr ''numpy'') \<and>
   ''jax'' \<in> {''numpy'', ''numba'', ''jax''} \<and>
   import_backend example_modules ''jax'' = Inr (jax example_modules) \<and>
   ''BACKEND_NAME'' \<notin> fst ` set (jax example_modules) \<and>
   get_backend_name (exec_call example_modules (UseBackend ''jax'') initial_globals)
     = Some (PyStr ''jax'')"
proof -
  have imp: "import_backend example_modules ''jax'' = Inr (jax example_modules)"
    by (simp add: import_backend_def)
  have keys: "''BACKEND_NAME'' \<notin> fst ` set (jax example_modules)"
    by (simp add: example_modules_def)
  have before: "get_backend_name initial_globals = Some (PyStr ''numpy'')"
    by (simp add: get_backend_name_def initial_globals_def)
  show ?thesis
    using use_backend_names [of "''torch''" example_modules initial_globals]
      use_backend_names [of "''jax''" example_modules initial_globals]
      imp keys before
    by auto
qed


section \<open>Construction of a synaptic ensemble\<close>

text \<open>
  Claim C2. A connection matrix of the right shape should yield its nonzero entries as
  edges. The constructor instead stops with a \<^verbatim>\<open>TypeError\<close>: for the 2 by 2 identity
  matrix between two groups of two neurons, \<^verbatim>\<open>enumerate(pre_group.num)\<close> is applied to the
  integer 2 and no ensemble is built.
\<close>

theorem conn_matrix_type_error:
  "fst (SynConn_init 0 (1 / 10) (PyFloat 0)
          (Some \<lparr>NeuGroup.num = 2, geometry = [2]\<rparr>) (Some \<lparr>NeuGroup.num = 2, geometry = [2]\<rparr>)
          (Some (NdArray [2, 2] [1, 0, 0, 1])) None None)
     = Inl (TypeError int_not_iterable_msg)"
  by (simp add: SynConn_init_def syn_name_def edges_or_num_def)







lemma example_syn_built:
  "fst (SynConn_init 0 (1 / 10) (PyFloat 0) (Some example_pre) (Some example_post)
          (Some (Dict [''i'' \<mapsto> [0, 1, 1], ''j'' \<mapsto> [1, 3, 1]])) None None) = Inr example_syn"
  by code_simp

lemma conn_shape_msg_pre: "sublist (show_nat p) (conn_shape_msg p q)"
  unfolding conn_shape_msg_def by (rule sublist_appendI)

lemma conn_shape_msg_post: "sublist (show_nat q) (conn_shape_msg p q)"
proof -
  have split: \<open>conn_shape_msg p q =
          (''The shape of "conn" must be ('' @ show_nat p @ '', '') @ show_nat q @ '')''\<close>
    by (simp add: conn_shape_msg_def)
  show ?thesis
    unfolding split by (rule sublist_appendI)
qed

lemma not_2d_msg_required: "sublist ''2D'' (not_2d_msg n)"
proof -
  have split: \<open>not_2d_msg n = ''"conn" must be a '' @ ''2D'' @ ('' array, not '' @ show_nat n @ ''D.'')\<close>
    by (simp add: not_2d_msg_def)
  show ?thesis
    unfolding split by (rule sublist_appendI)
qed

lemma not_2d_msg_actual: "sublist (show_nat n @ ''D'') (not_2d_msg n)"
proof -
  have split: \<open>not_2d_msg n = ''"conn" must be a 2D array, not '' @ (show_nat n @ ''D'') @ ''.''\<close>
    by (simp add: not_2d_msg_def)
  show ?thesis
    unfolding split by (rule sublist_appendI)
qed

lemma SynConn_init_array:
  "fst (SynConn_init SYN_NO dt delay (Some pre) (Some post) (Some (NdArray shp es)) num_arg name_arg)
     = (if length shp \<noteq> 2 then Inl (AssertionError (not_2d_msg (length shp)))
        else if \<not> (shp ! 0 = NeuGroup.num pre \<and> shp ! 1 = NeuGroup.num post)
        then Inl (AssertionError (conn_shape_msg (NeuGroup.num pre) (NeuGroup.num post)))
        else Inl (TypeError int_not_iterable_msg))"
  by (simp add: SynConn_init_def edges_or_num_def split: prod.splits)

text \<open>
  Claim C7, as stated, asks that the message of the error for an array that is not
  two-dimensional include the expected sizes. It does not: for a one-dimensional array
  between groups of 3 and 4 neurons the message is \<^verbatim>\<open>"conn" must be a 2D array, not 1D.\<close>,
  which contains neither 3 nor 4.
\<close>

theorem not_2d_message_counterexample:
  "fst (SynConn_init 0 (1 / 10) (PyFloat 0) (Some example_pre) (Some example_post)
          (Some (NdArray [3] [1, 0, 1])) None None)
     = Inl (AssertionError (not_2d_msg 1)) \<and>
   NeuGroup.num example_pre = 3 \<and> NeuGroup.num example_post = 4 \<and>
   \<not> sublist (show_nat 3) (not_2d_msg 1) \<and> \<not> sublist (show_nat 4) (not_2d_msg 1)"
proof -
  have "\<not> sublist (show_nat 3) (not_2d_msg 1)" and "\<not> sublist (show_nat 4) (not_2d_msg 1)"
    by code_simp+
  then show ?thesis
    by (simp add: SynConn_init_array example_pre_def example_post_def)
qed

text \<open>
  Claim C7, amended. With both groups given, a two-dimensional array whose shape differs
  from \<^verbatim>\<open>(pre_group.num, post_group.num)\<close> makes the construction fail with the assertion
  error whose message includes both expected sizes; an array that is not two-dimensional
  makes it fail with the assertion error whose message names the required dimensionality
  \<^verbatim>\<open>2D\<close> and the number of dimensions of the array. In both cases the constructor returns
  the error and no ensemble.
\<close>

theorem conn_array_shape_errors:
  "(length shp = 2 \<and> (shp ! 0 \<noteq> NeuGroup.num pre \<or> shp ! 1 \<noteq> NeuGroup.num post) \<longrightarrow>
      fst (SynConn_init SYN_NO dt delay (Some pre) (Some post) (Some (NdArray shp es)) num_arg name_arg)
        = Inl (AssertionError (conn_shape_msg (NeuGroup.num pre) (NeuGroup.num post))) \<and>
      sublist (show_nat (NeuGroup.num pre)) (conn_shape_msg (NeuGroup.num pre) (NeuGroup.num post)) \<and>
      sublist (show_nat (NeuGroup.num post)) (conn_shape_msg (NeuGroup.num pre) (NeuGroup.num post))) \<and>
   (length shp \<noteq> 2 \<longrightarrow>
      fst (SynConn_init SYN_NO dt delay (Some pre) (Some post) (Some (NdArray shp es)) num_arg name_arg)
        = Inl (AssertionError (not_2d_msg (length shp))) \<and>
      sublist ''2D'' (not_2d_msg (length shp)) \<and>
      sublist (show_nat (length shp) @ ''D'') (not_2d_msg (length shp)))"
  by (simp add: SynConn_init_array conn_shape_msg_pre conn_shape_msg_post
        not_2d_msg_required not_2d_msg_actual)

text \<open>
  Instances of the amended C7: a 3 by 3 matrix and a vector of length 3 between groups of
  3 and 4 neurons.
\<close>

theorem conn_array_shape_errors_witness:
  "length [3, 3 :: nat] = 2 \<and> [3, 3] ! 1 \<noteq> NeuGroup.num example_post \<and>
   fst (SynConn_init 0 (1 / 10) (PyFloat 0) (Some example_pre) (Some example_post)
          (Some (NdArray [3, 3] [1, 0, 0, 0, 1, 0, 0, 0, 1])) None None)
     = Inl (AssertionError (conn_shape_msg 3 4)) \<and>
   sublist ''3'' (conn_shape_msg 3 4) \<and> sublist ''4'' (conn_shape_msg 3 4) \<and>
   length [3 :: nat] \<noteq> 2 \<and>
   fst (SynConn_init 0 (1 / 10) (PyFloat 0) (Some example_pre) (Some example_post)
          (Some (NdArray [3] [1, 0, 1])) None None)
     = Inl (AssertionError (not_2d_msg 1)) \<and>
   sublist ''2D'' (not_2d_msg 1) \<and> sublist ''1D'' (not_2d_msg 1)"
  using conn_array_shape_errors [of "[3, 3]" example_pre example_post 0 "1 / 10" "PyFloat 0"
          "[1, 0, 0, 0, 1, 0, 0, 0, 1]" None None]
        conn_array_shape_errors [of "[3]" example_pre example_post 0 "1 / 10" "PyFloat 0"
          "[1, 0, 1]" None None]
  by (simp add: example_pre_def example_post_def digit_char_def show_nat.simps)

lemma apply_op_num: "SynConn.num (apply_op opr s) = SynConn.num s"
  by (cases opr) (simp_all add: SynConn_merge_steps_def SynConn_keywords_def)

lemma fold_apply_op_num: "SynConn.num (fold apply_op ops s) = SynConn.num s"
  by (induction ops arbitrary: s) (simp_all add: apply_op_num)

text \<open>
  Claim C5. Every successfully constructed ensemble has \<open>0 < num < 2^64\<close>; when it is
  built from a pre-group, a post-group and a connection, \<open>num\<close> is the length of
  \<open>pre_ids\<close>; and no later operation of the ensemble changes \<open>num\<close>.
\<close>

theorem num_fixed_at_construction:
  assumes "fst (SynConn_init SYN_NO dt delay pre_grp post_grp conn num_arg name_arg) = Inr s"
  shows "0 < SynConn.num s \<and> SynConn.num s < 2 ^ 64 \<and>
         (pre_grp \<noteq> None \<and> post_grp \<noteq> None \<longrightarrow>
            (\<exists>ids. pre_ids s = Some ids \<and> SynConn.num s = int (length ids))) \<and>
         SynConn.num (fold apply_op ops s) = SynConn.num s"
  using assms
  by (auto simp: SynConn_init_def edges_or_num_def fold_apply_op_num
           split: prod.splits sum.splits if_splits option.splits)

text \<open>
  An instance of C5: three edges given as a dictionary between groups of 3 and 4 neurons.
\<close>

theorem num_fixed_at_construction_witness:
  "fst (SynConn_init 0 (1 / 10) (PyFloat 0) (Some example_pre) (Some example_post)
          (Some (Dict [''i'' \<mapsto> [0, 1, 1], ''j'' \<mapsto> [1, 3, 1]])) None None) = Inr example_syn \<and>
   0 < SynConn.num example_syn \<and> SynConn.num example_syn < 2 ^ 64 \<and>
   Some example_pre \<noteq> None \<and> Some example_post \<noteq> None \<and>
   pre_ids example_syn = Some [0, 1, 1] \<and> SynConn.num example_syn = int (length [0, 1, 1 :: int]) \<and>
   SynConn.num (fold apply_op [MergeSteps [''SynConn0.update()''], Keywords []] example_syn) = 3"
  using num_fixed_at_construction [OF example_syn_built, of "[MergeSteps [''SynConn0.update()''], Keywords []]"]
    example_syn_built
  by (simp add: example_syn_def)


section \<open>The per-step plan of a synaptic ensemble\<close>




section \<open>The scatter-sum aggregation\<close>























lemma dtype_mismatch_msg_pre: "sublist (dtype_name d1) (dtype_mismatch_msg d1 d2)"
proof -
  have split: \<open>dtype_mismatch_msg d1 d2 =
      (''The dtype of pre_ids must be equal to that of post_ids, while we got (dtype('' @ [CHR 0x27])
        @ dtype_name d1 @ ([CHR 0x27] @ '')'' @ '', '' @ dtype_repr d2 @ '')'')\<close>
    by (simp add: dtype_mismatch_msg_def dtype_repr_def)
  show ?thesis
    unfolding split by (rule sublist_appendI)
qed

lemma dtype_mismatch_msg_post: "sublist (dtype_name d2) (dtype_mismatch_msg d1 d2)"
proof -
  have split: \<open>dtype_mismatch_msg d1 d2 =
      (''The dtype of pre_ids must be equal to that of post_ids, while we got (''
        @ dtype_repr d1 @ '', '' @ ''dtype('' @ [CHR 0x27])
        @ dtype_name d2 @ ([CHR 0x27] @ '')'' @ '')'')\<close>
    by (simp add: dtype_mismatch_msg_def dtype_repr_def)
  show ?thesis
    unfolding split by (rule sublist_appendI)
qed

lemma other_messages:
  "length_mismatch_msg a b \<noteq> dtype_mismatch_msg d1 d2"
  "index_dtype_msg d \<noteq> dtype_mismatch_msg d1 d2"
  "values_dtype_msg d \<noteq> dtype_mismatch_msg d1 d2"
  "empty_max_msg \<noteq> dtype_mismatch_msg d1 d2"
  "values_size_msg a b \<noteq> dtype_mismatch_msg d1 d2"
  "''Cannot find compiled gpu wheels.'' \<noteq> dtype_mismatch_msg d1 d2"
  "unsupported_platform_msg \<noteq> dtype_mismatch_msg d1 d2"
  by (simp_all add: length_mismatch_msg_def index_dtype_msg_def values_dtype_msg_def
        empty_max_msg_def values_size_msg_def unsupported_platform_msg_def dtype_mismatch_msg_def)

lemma scatter_sum_error: "scatter_sum vs ids n = Inl e \<Longrightarrow> e = IndexOutOfRange"
  by (simp add: scatter_sum_def split: if_splits)

lemma translation_no_dtype_mismatch:
  "atomic_sum_translation env varr pre post n \<noteq> Inl (ValueError (dtype_mismatch_msg d1 d2))"
proof
  assume "atomic_sum_translation env varr pre post n = Inl (ValueError (dtype_mismatch_msg d1 d2))"
  then show False
    using other_messages(6,7)
    by (auto simp: atomic_sum_translation_def wrap_result_def coo_atomic_sum_heter_def
          coo_atomic_sum_homo_def Let_def
          split: if_splits sum.splits dest: scatter_sum_error)
qed

text \<open>
  Claim C4, as stated, fails when the two index arrays also differ in length: the length
  check comes first and its message names no element type. And a one-dimensional array
  of a single value is treated as a scalar: \<^verbatim>\<open>pre_ids\<close> is replaced by \<^verbatim>\<open>post_ids\<close> and
  the call returns although the element types of the arguments differ.
\<close>

theorem dtype_mismatch_counterexample:
  "jnp_size (Vector \<lparr>dtype = float32, items = [1, 2]\<rparr>) \<noteq> 1 \<and>
   dtype \<lparr>dtype = uint32, items = [0, 1 :: nat]\<rparr> \<noteq> dtype \<lparr>dtype = uint64, items = [0 :: nat]\<rparr> \<and>
   coo_atomic_sum cpu_env (Vector \<lparr>dtype = float32, items = [1, 2]\<rparr>)
      \<lparr>dtype = uint64, items = [0]\<rparr> 2 (Some \<lparr>dtype = uint32, items = [0, 1]\<rparr>)
     = Inl (ValueError (length_mismatch_msg 2 1)) \<and>
   \<not> sublist ''uint32'' (length_mismatch_msg 2 1) \<and>
   \<not> sublist ''uint64'' (length_mismatch_msg 2 1) \<and>
   coo_atomic_sum cpu_env (Vector \<lparr>dtype = float32, items = [5]\<rparr>)
      \<lparr>dtype = uint64, items = [0]\<rparr> 1 (Some \<lparr>dtype = uint32, items = [0]\<rparr>)
     = Inr \<lparr>dtype = float32, items = [5]\<rparr>"
proof -
  have "\<not> sublist ''uint32'' (length_mismatch_msg 2 1)"
    and "\<not> sublist ''uint64'' (length_mismatch_msg 2 1)"
    by code_simp+
  then show ?thesis
    by (simp add: coo_atomic_sum_def atomic_sum_translation_def cpu_env_def wrap_result_def
        coo_atomic_sum_homo_def scatter_sum_def Let_def upt_conv_Cons eval_nat_numeral)
qed

text \<open>
  Claim C4, amended. For values of a size other than 1 and index arrays of equal length
  whose element types differ, the call raises the \<^verbatim>\<open>ValueError\<close> whose message includes
  both element types; when the lengths differ it raises the error about the lengths
  instead; with equal element types, or with values of size 1, the error about the
  element types is never raised.
\<close>

theorem dtype_mismatch_rejected:
  "(jnp_size vals \<noteq> 1 \<and> length (items pre) = length (items post) \<and> dtype pre \<noteq> dtype post \<longrightarrow>
      coo_atomic_sum env vals post post_num (Some pre)
        = Inl (ValueError (dtype_mismatch_msg (dtype pre) (dtype post))) \<and>
      sublist (dtype_name (dtype pre)) (dtype_mismatch_msg (dtype pre) (dtype post)) \<and>
      sublist (dtype_name (dtype post)) (dtype_mismatch_msg (dtype pre) (dtype post))) \<and>
   (jnp_size vals \<noteq> 1 \<and> length (items pre) \<noteq> length (items post) \<longrightarrow>
      coo_atomic_sum env vals post post_num (Some pre)
        = Inl (ValueError (length_mismatch_msg (length (items pre)) (length (items post))))) \<and>
   (dtype pre = dtype post \<or> jnp_size vals = 1 \<longrightarrow>
      coo_atomic_sum env vals post post_num (Some pre)
        \<noteq> Inl (ValueError (dtype_mismatch_msg d1 d2)))"
proof (intro conjI impI)
  assume "jnp_size vals \<noteq> 1 \<and> length (items pre) = length (items post) \<and> dtype pre \<noteq> dtype post"
  then show "coo_atomic_sum env vals post post_num (Some pre)
        = Inl (ValueError (dtype_mismatch_msg (dtype pre) (dtype post)))"
    by (simp add: coo_atomic_sum_def)
next
  show "sublist (dtype_name (dtype pre)) (dtype_mismatch_msg (dtype pre) (dtype post))"
    by (rule dtype_mismatch_msg_pre)
  show "sublist (dtype_name (dtype post)) (dtype_mismatch_msg (dtype pre) (dtype post))"
    by (rule dtype_mismatch_msg_post)
next
  assume "jnp_size vals \<noteq> 1 \<and> length (items pre) \<noteq> length (items post)"
  then show "coo_atomic_sum env vals post post_num (Some pre)
        = Inl (ValueError (length_mismatch_msg (length (items pre)) (length (items post))))"
    by (simp add: coo_atomic_sum_def)
next
  assume same: "dtype pre = dtype post \<or> jnp_size vals = 1"
  show "coo_atomic_sum env vals post post_num (Some pre)
        \<noteq> Inl (ValueError (dtype_mismatch_msg d1 d2))"
  proof
    assume raised: "coo_atomic_sum env vals post post_num (Some pre)
        = Inl (ValueError (dtype_mismatch_msg d1 d2))"
    with same show False
      using other_messages(1-5) translation_no_dtype_mismatch
      by (auto simp: coo_atomic_sum_def Let_def split: if_splits)
  qed
qed

text \<open>
  Instances of the amended C4: uint32 against uint64 with equal lengths, with different
  lengths, and uint32 against uint32.
\<close>

theorem dtype_mismatch_rejected_witness:
  "jnp_size (Vector \<lparr>dtype = float32, items = [1, 2]\<rparr>) \<noteq> 1 \<and>
   length [0, 1 :: nat] = length [1, 0 :: nat] \<and> uint32 \<noteq> uint64 \<and>
   coo_atomic_sum cpu_env (Vector \<lparr>dtype = float32, items = [1, 2]\<rparr>)
      \<lparr>dtype = uint64, items = [1, 0]\<rparr> 2 (Some \<lparr>dtype = uint32, items = [0, 1]\<rparr>)
     = Inl (ValueError (dtype_mismatch_msg uint32 uint64)) \<and>
   sublist ''uint32'' (dtype_mismatch_msg uint32 uint64) \<and>
   sublist ''uint64'' (dtype_mismatch_msg uint32 uint64) \<and>
   length [0, 1 :: nat] \<noteq> length [0 :: nat] \<and>
   coo_atomic_sum cpu_env (Vector \<lparr>dtype = float32, items = [1, 2]\<rparr>)
      \<lparr>dtype = uint64, items = [0]\<rparr> 2 (Some \<lparr>dtype = uint32, items = [0, 1]\<rparr>)
     = Inl (ValueError (length_mismatch_msg 2 1)) \<and>
   coo_atomic_sum cpu_env (Vector \<lparr>dtype = float32, items = [1, 2]\<rparr>)
      \<lparr>dtype = uint32, items = [1, 0]\<rparr> 2 (Some \<lparr>dtype = uint32, items = [0, 1]\<rparr>)
     \<noteq> Inl (ValueError (dtype_mismatch_msg uint32 uint32))"
  using dtype_mismatch_rejected [of "Vector \<lparr>dtype = float32, items = [1, 2]\<rparr>"
      "\<lparr>dtype = uint32, items = [0, 1]\<rparr>" "\<lparr>dtype = uint64, items = [1, 0]\<rparr>" cpu_env 2]
    dtype_mismatch_rejected [of "Vector \<lparr>dtype = float32, items = [1, 2]\<rparr>"
      "\<lparr>dtype = uint32, items = [0, 1]\<rparr>" "\<lparr>dtype = uint64, items = [0]\<rparr>" cpu_env 2]
    dtype_mismatch_rejected [of "Vector \<lparr>dtype = float32, items = [1, 2]\<rparr>"
      "\<lparr>dtype = uint32, items = [0, 1]\<rparr>" "\<lparr>dtype = uint32, items = [1, 0]\<rparr>" cpu_env 2
      uint32 uint32]
  by (simp add: eval_nat_numeral)

end
